theory Spec2Isabelle
  imports Main "HOL-Library.AList" "HOL-Library.Word"
begin

section \<open>Values and exceptions\<close>

text \<open>
  A Python \<open>str\<close> is modelled as a \<open>string\<close>, one \<open>char\<close> per code point (the model covers
  texts over the code points below 256). The image is an opaque byte string.
\<close>

type_synonym bytes = "8 word list"

text \<open>
  What \<open>json.loads\<close> returns and what the pipeline hands on: a dict is an association list in
  insertion order, a number is kept as the lexeme that denotes it.
\<close>

datatype json =
    JNull
  | JBool bool
  | JNumber string
  | JString string
  | JArray "json list"
  | JObject "(string \<times> json) list"

type_synonym dict = "(string \<times> json) list"

text \<open>
  An exception carries \<open>str(e)\<close>. The handlers of \<open>process_and_log_transaction\<close> tell
  \<open>json.JSONDecodeError\<close> from every other \<open>Exception\<close>, so the model does too.
\<close>

datatype exn = JSONDecodeError string | OtherException string

fun str_of_exn :: "exn \<Rightarrow> string" where
  "str_of_exn (JSONDecodeError m) = m"
| "str_of_exn (OtherException m) = m"

subsection \<open>Dict operations\<close>

text \<open>\<open>d[k] = v\<close>: an existing key keeps its position, a new key goes last.\<close>

definition dict_set :: "string \<Rightarrow> json \<Rightarrow> dict \<Rightarrow> dict" where
  "dict_set k v d = AList.update k v d"

text \<open>\<open>d.get(k, default)\<close>\<close>

definition dict_get :: "dict \<Rightarrow> string \<Rightarrow> json \<Rightarrow> json" where
  "dict_get d k dflt = (case map_of d k of None \<Rightarrow> dflt | Some v \<Rightarrow> v)"

text \<open>
  \<open>structured_analysis['Note'] = user_note\<close> on whatever \<open>json.loads\<close> returned: item
  assignment with a string key succeeds on a dict only, and is a \<open>TypeError\<close> on every other
  JSON value.
\<close>

fun type_name :: "json \<Rightarrow> string" where
  "type_name JNull = ''NoneType''"
| "type_name (JBool b) = ''bool''"
| "type_name (JNumber n) = (if set n \<subseteq> set ''-0123456789'' then ''int'' else ''float'')"
| "type_name (JString s) = ''str''"
| "type_name (JArray xs) = ''list''"
| "type_name (JObject d) = ''dict''"

fun setitem :: "json \<Rightarrow> string \<Rightarrow> json \<Rightarrow> exn + dict" where
  "setitem (JObject d) k v = Inr (dict_set k v d)"
| "setitem (JArray xs) k v =
     Inl (OtherException ''list indices must be integers or slices, not str'')"
| "setitem j k v =
     Inl (OtherException
       (CHR 0x27 # type_name j @ CHR 0x27 # '' object does not support item assignment''))"

section \<open>String operations of the parser\<close>

text \<open>\<open>str.find\<close> and \<open>str.rfind\<close> for a single character: the index, or \<open>-1\<close>.\<close>

fun str_find :: "string \<Rightarrow> char \<Rightarrow> int" where
  "str_find [] c = - 1"
| "str_find (x # xs) c =
     (if x = c then 0 else (let r = str_find xs c in if r = - 1 then - 1 else r + 1))"

fun str_rfind :: "string \<Rightarrow> char \<Rightarrow> int" where
  "str_rfind [] c = - 1"
| "str_rfind (x # xs) c =
     (let r = str_rfind xs c in if r \<noteq> - 1 then r + 1 else if x = c then 0 else - 1)"

text \<open>The slice \<open>s[i:j]\<close> for bounds that are not negative.\<close>

definition slice :: "string \<Rightarrow> int \<Rightarrow> int \<Rightarrow> string" where
  "slice s i j = take (nat (j - i)) (drop (nat i) s)"

text \<open>
  \<open>str.strip()\<close> removes the whitespace code points at both ends; below 256 these are
  9 to 13, 28 to 32, 133 and 160.
\<close>

definition is_space :: "char \<Rightarrow> bool" where
  "is_space c = ((of_char c :: nat) \<in> set [9, 10, 11, 12, 13, 28, 29, 30, 31, 32, 133, 160])"

definition str_strip :: "string \<Rightarrow> string" where
  "str_strip s = rev (dropWhile is_space (rev (dropWhile is_space s)))"

section \<open>The external services\<close>

text \<open>
  The two module-level handles, \<open>None\<close> when their initialisation failed.
  The extraction client is what \<open>models.generate_content\<close> does with the image and the
  prompt: it raises, or returns a response whose \<open>text\<close> is a string or \<open>None\<close>.
  The worksheet is what \<open>append_row\<close> does with a row: it returns, or raises.
\<close>

type_synonym gemini_client = "bytes \<Rightarrow> string \<Rightarrow> exn + string option"
type_synonym worksheet = "json list \<Rightarrow> exn option"

record env =
  GeminiClient :: "gemini_client option"
  sheet :: "worksheet option"

text \<open>The external calls a run attempts, in order.\<close>

datatype call =
    GenerateContent string bytes string string
  | AppendRow "json list"

definition fixed_prompt :: string where
  \<open>fixed_prompt = ''Extract the total amount, date, and platform from this transaction image. If available, also extract items purchased and the vendor name.\<newline>    Return the output in the following format:\<newline>    ```json\<newline>    {{\<newline>        "Amount": "Total amount",\<newline>        "Date": "Date of transaction",\<newline>        "Platform": "Platform used",\<newline>        "Items": "Items purchased",\<newline>        "Vendor": "Vendor name"\<newline>    }}\<newline>    ```''\<close>

definition generate_call :: "bytes \<Rightarrow> call" where
  "generate_call image_data =
     GenerateContent ''gemini-2.0-flash'' image_data ''image/jpeg'' fixed_prompt"

section \<open>The pipeline\<close>

type_synonym outcome = "(dict \<times> bool) \<times> call list"

text \<open>The three error payloads built after the precondition checks.\<close>

definition api_failed :: "exn \<Rightarrow> dict \<times> bool" where
  "api_failed e =
     ([(''error'', JString ''Gemini API request failed''),
       (''details'', JString (str_of_exn e))], False)"

definition parse_failed :: "exn \<Rightarrow> string \<Rightarrow> dict \<times> bool" where
  "parse_failed e text =
     ([(''error'', JString ''Failed to parse Gemini JSON response''),
       (''details'', JString (str_of_exn e)),
       (''raw_response'', JString text)], False)"

definition no_json :: "string \<Rightarrow> dict \<times> bool" where
  "no_json text =
     ([(''error'', JString ''Could not find JSON in Gemini response''),
       (''raw_response'', JString text)], False)"

text \<open>
  The two handlers. An exception raised inside the inner \<open>try\<close> is caught by
  \<open>except json.JSONDecodeError\<close> when it is one, and by the outer \<open>except Exception\<close>
  otherwise.
\<close>

fun inner_handler :: "exn \<Rightarrow> string \<Rightarrow> dict \<times> bool" where
  "inner_handler (JSONDecodeError m) text = parse_failed (JSONDecodeError m) text"
| "inner_handler (OtherException m) text = api_failed (OtherException m)"

text \<open>The row handed to \<open>sheet.append_row\<close>.\<close>

definition ledger_row :: "dict \<Rightarrow> string \<Rightarrow> string \<Rightarrow> json list" where
  "ledger_row structured_analysis user_note text =
     [dict_get structured_analysis ''Amount'' (JString ''''),
      dict_get structured_analysis ''Date'' (JString ''''),
      dict_get structured_analysis ''Platform'' (JString ''''),
      dict_get structured_analysis ''Items'' (JString ''''),
      dict_get structured_analysis ''Vendor'' (JString ''''),
      JString user_note,
      JString text]"

text \<open>
  The candidate \<open>json_str\<close> of the stripped text, when the condition
  \<open>json_start != -1 and json_end != -1 and json_start < json_end\<close> holds.
\<close>

definition json_candidate :: "string \<Rightarrow> string option" where
  "json_candidate cleaned_pre_analysis_text =
     (let json_start = str_find cleaned_pre_analysis_text CHR ''{'';
          json_end = str_rfind cleaned_pre_analysis_text CHR ''}''
      in if json_start \<noteq> - 1 \<and> json_end \<noteq> - 1 \<and> json_start < json_end
         then Some (slice cleaned_pre_analysis_text json_start (json_end + 1))
         else None)"

text \<open>
  The body of the inner \<open>try\<close>: decode, set the note, append the row, return the dict.
  \<open>loads\<close> is \<open>json.loads\<close>.
\<close>

definition decode_and_log ::
  "(string \<Rightarrow> exn + json) \<Rightarrow> worksheet \<Rightarrow> string \<Rightarrow> string \<Rightarrow> string \<Rightarrow> (exn + dict) \<times> call list"
where
  "decode_and_log loads sh json_str user_note text =
     (case loads json_str of
        Inl e \<Rightarrow> (Inl e, [])
      | Inr v \<Rightarrow>
          (case setitem v ''Note'' (JString user_note) of
             Inl e \<Rightarrow> (Inl e, [])
           | Inr structured_analysis \<Rightarrow>
               (let row = ledger_row structured_analysis user_note text in
                case sh row of
                  Some e \<Rightarrow> (Inl e, [AppendRow row])
                | None \<Rightarrow> (Inr structured_analysis, [AppendRow row]))))"

definition process_and_log_transaction ::
  "(string \<Rightarrow> exn + json) \<Rightarrow> env \<Rightarrow> bytes \<Rightarrow> string \<Rightarrow> outcome"
where
  "process_and_log_transaction loads ev image_data user_note =
     (case GeminiClient ev of
        None \<Rightarrow> (([(''error'', JString ''Gemini client not initialized'')], False), [])
      | Some client \<Rightarrow>
     (case sheet ev of
        None \<Rightarrow> (([(''error'', JString ''Google Sheets client not initialized'')], False), [])
      | Some sh \<Rightarrow>
     (case client image_data fixed_prompt of
        Inl e \<Rightarrow> (api_failed e, [generate_call image_data])
      | Inr None \<Rightarrow>
          (api_failed (OtherException
             (CHR 0x27 # ''NoneType' object has no attribute 'strip'' @ [CHR 0x27])),
           [generate_call image_data])
      | Inr (Some text) \<Rightarrow>
          (case json_candidate (str_strip text) of
             None \<Rightarrow> (no_json text, [generate_call image_data])
           | Some json_str \<Rightarrow>
               (case decode_and_log loads sh json_str user_note text of
                  (Inl e, calls) \<Rightarrow> (inner_handler e text, generate_call image_data # calls)
                | (Inr structured_analysis, calls) \<Rightarrow>
                    ((structured_analysis, True), generate_call image_data # calls))))))"

section \<open>The upload endpoint\<close>

text \<open>
  What \<open>api_process_transaction\<close> reads of the request: the uploaded files and the form
  fields by name. A file has a name and a \<open>read()\<close> that returns the bytes or raises.
  The response is the JSON body and the status.
\<close>

record upload =
  filename :: string
  read :: "exn + bytes"

record request =
  files :: "string \<rightharpoonup> upload"
  form :: "string \<rightharpoonup> string"

type_synonym response = "json \<times> nat"

definition api_process_transaction ::
  "(string \<Rightarrow> exn + json) \<Rightarrow> env \<Rightarrow> request \<Rightarrow> response \<times> call list"
where
  "api_process_transaction loads ev req =
     (case files req ''image'' of
        None \<Rightarrow> ((JObject [(''error'', JString ''No image file provided'')], 400), [])
      | Some image_file \<Rightarrow>
     (case form req ''note'' of
        None \<Rightarrow> ((JObject [(''error'', JString ''No note provided'')], 400), [])
      | Some user_note \<Rightarrow>
          if filename image_file = [] then
            ((JObject [(''error'', JString ''No selected file'')], 400), [])
          else
            (case read image_file of
               Inl e \<Rightarrow>
                 ((JObject [(''error'', JString ''Could not read image file''),
                            (''details'', JString (str_of_exn e))], 400), [])
             | Inr image_bytes \<Rightarrow>
                 (case process_and_log_transaction loads ev image_bytes user_note of
                    ((processed_data, success), calls) \<Rightarrow>
                      if success then
                        ((JObject [(''message'', JString ''Transaction processed successfully''),
                                   (''data'', JObject processed_data)], 200), calls)
                      else
                        ((JObject [(''error'', JString ''Failed to process transaction''),
                                   (''details'', JObject processed_data)], 500), calls)))))"

section \<open>An executable decoder\<close>

text \<open>
  \<open>json.loads\<close> is the standard library's, so the pipeline above takes the decoder as its
  first argument and the general theorems hold for every decoder. The closed examples run
  \<open>json_loads\<close>, a recursive-descent decoder that follows the library's scanner:
  whitespace is space, tab, line feed and carriage return; a string may not hold a control
  character; a duplicate key keeps its first position and its last value; anything but
  whitespace after the value is an error. Three things differ from the library and are not
  used by any example: a number is kept as its lexeme, a four-digit hexadecimal escape
  above 00FF is rejected (the character is outside \<open>char\<close>), and the message of the error
  is not the library's. The recursion is bounded by fuel, the length of the text, and
  running out of it is reported as a decode error.
\<close>

definition json_ws :: "char \<Rightarrow> bool" where
  "json_ws c = (c \<in> set [CHR '' '', CHR 0x09, CHR 0x0A, CHR 0x0D])"

definition skip_ws :: "string \<Rightarrow> string" where
  "skip_ws s = dropWhile json_ws s"

definition is_digit :: "char \<Rightarrow> bool" where
  "is_digit c = (c \<in> set ''0123456789'')"

definition expect :: "char \<Rightarrow> string \<Rightarrow> string option" where
  "expect ch s = (case s of [] \<Rightarrow> None | c # cs \<Rightarrow> if c = ch then Some cs else None)"

definition strip_prefix :: "string \<Rightarrow> string \<Rightarrow> string option" where
  "strip_prefix p s = (if take (length p) s = p then Some (drop (length p) s) else None)"

definition unescape :: "char \<Rightarrow> char option" where
  \<open>unescape e =
     (if e = CHR 0x22 then Some (CHR 0x22)
      else if e = CHR 0x5C then Some (CHR 0x5C)
      else if e = CHR ''/'' then Some (CHR ''/'')
      else if e = CHR ''b'' then Some (CHR 0x08)
      else if e = CHR ''f'' then Some (CHR 0x0C)
      else if e = CHR ''n'' then Some (CHR 0x0A)
      else if e = CHR ''r'' then Some (CHR 0x0D)
      else if e = CHR ''t'' then Some (CHR 0x09)
      else None)\<close>

definition hex_digit :: "char \<Rightarrow> nat option" where
  "hex_digit c =
     (let n = (of_char c :: nat) in
      if 48 \<le> n \<and> n \<le> 57 then Some (n - 48)
      else if 65 \<le> n \<and> n \<le> 70 then Some (n - 55)
      else if 97 \<le> n \<and> n \<le> 102 then Some (n - 87)
      else None)"

fun hex_value :: "string \<Rightarrow> nat \<Rightarrow> nat option" where
  "hex_value [] acc = Some acc"
| "hex_value (c # cs) acc =
     (case hex_digit c of None \<Rightarrow> None | Some d \<Rightarrow> hex_value cs (16 * acc + d))"

fun scan_chars :: "nat \<Rightarrow> string \<Rightarrow> (string \<times> string) option" where
  "scan_chars 0 s = None"
| "scan_chars (Suc n) [] = None"
| "scan_chars (Suc n) (c # cs) =
     (if c = CHR 0x22 then Some ([], cs)
      else if c = CHR 0x5C then
        (case cs of
           [] \<Rightarrow> None
         | e # cs' \<Rightarrow>
             (if e = CHR ''u'' then
                (if length cs' < 4 then None
                 else case hex_value (take 4 cs') 0 of
                   None \<Rightarrow> None
                 | Some v \<Rightarrow>
                     (if 256 \<le> v then None
                      else map_option (apfst ((#) (char_of v))) (scan_chars n (drop 4 cs'))))
              else case unescape e of
                None \<Rightarrow> None
              | Some ch \<Rightarrow> map_option (apfst ((#) ch)) (scan_chars n cs')))
      else if (of_char c :: nat) < 32 then None
      else map_option (apfst ((#) c)) (scan_chars n cs))"

definition scan_digits :: "string \<Rightarrow> (string \<times> string) option" where
  "scan_digits s =
     (let ds = takeWhile is_digit s in if ds = [] then None else Some (ds, dropWhile is_digit s))"

definition scan_int :: "string \<Rightarrow> (string \<times> string) option" where
  "scan_int s =
     (let (sign, r) = (case expect CHR ''-'' s of None \<Rightarrow> ([], s) | Some r \<Rightarrow> (''-'', r)) in
      case r of
        [] \<Rightarrow> None
      | d # r' \<Rightarrow>
          if d = CHR ''0'' then Some (sign @ [d], r')
          else if is_digit d then Some (sign @ d # takeWhile is_digit r', dropWhile is_digit r')
          else None)"

definition scan_frac :: "string \<Rightarrow> string \<times> string" where
  "scan_frac s =
     (case expect CHR ''.'' s of
        None \<Rightarrow> ([], s)
      | Some r \<Rightarrow> (case scan_digits r of None \<Rightarrow> ([], s) | Some (ds, r') \<Rightarrow> (CHR ''.'' # ds, r')))"

definition scan_exp :: "string \<Rightarrow> string \<times> string" where
  "scan_exp s =
     (case s of
        [] \<Rightarrow> ([], s)
      | e # r \<Rightarrow>
          if e = CHR ''e'' \<or> e = CHR ''E'' then
            (let (sign, r1) =
               (case r of
                  [] \<Rightarrow> ([], r)
                | g # r2 \<Rightarrow> if g = CHR ''-'' \<or> g = CHR ''+'' then ([g], r2) else ([], r))
             in case scan_digits r1 of
                  None \<Rightarrow> ([], s)
                | Some (ds, r3) \<Rightarrow> (e # sign @ ds, r3))
          else ([], s))"

definition scan_number :: "string \<Rightarrow> (json \<times> string) option" where
  "scan_number s =
     (case scan_int s of
        None \<Rightarrow> None
      | Some (i, r) \<Rightarrow>
          (let (f, r1) = scan_frac r; (e, r2) = scan_exp r1
           in Some (JNumber (i @ f @ e), r2)))"

definition scan_constant :: "string \<Rightarrow> (json \<times> string) option" where
  "scan_constant s =
     (case strip_prefix ''null'' s of Some r \<Rightarrow> Some (JNull, r) | None \<Rightarrow>
      case strip_prefix ''true'' s of Some r \<Rightarrow> Some (JBool True, r) | None \<Rightarrow>
      case strip_prefix ''false'' s of Some r \<Rightarrow> Some (JBool False, r) | None \<Rightarrow>
      case strip_prefix ''NaN'' s of Some r \<Rightarrow> Some (JNumber ''NaN'', r) | None \<Rightarrow>
      case strip_prefix ''Infinity'' s of Some r \<Rightarrow> Some (JNumber ''Infinity'', r) | None \<Rightarrow>
      case strip_prefix ''-Infinity'' s of Some r \<Rightarrow> Some (JNumber ''-Infinity'', r) | None \<Rightarrow>
      None)"

fun scan_once :: "nat \<Rightarrow> string \<Rightarrow> (json \<times> string) option"
and scan_array :: "nat \<Rightarrow> string \<Rightarrow> (json list \<times> string) option"
and scan_object :: "nat \<Rightarrow> string \<Rightarrow> ((string \<times> json) list \<times> string) option"
where
  "scan_once 0 s = None"
| "scan_once (Suc n) s =
     (case s of
        [] \<Rightarrow> None
      | c # cs \<Rightarrow>
          if c = CHR 0x22 then map_option (apfst JString) (scan_chars (length cs) cs)
          else if c = CHR ''{'' then
            (case expect CHR ''}'' (skip_ws cs) of
               Some r \<Rightarrow> Some (JObject [], r)
             | None \<Rightarrow>
                 map_option (apfst (\<lambda>ps. JObject (foldl (\<lambda>d (k, v). AList.update k v d) [] ps)))
                   (scan_object n (skip_ws cs)))
          else if c = CHR ''['' then
            (case expect CHR '']'' (skip_ws cs) of
               Some r \<Rightarrow> Some (JArray [], r)
             | None \<Rightarrow> map_option (apfst JArray) (scan_array n (skip_ws cs)))
          else (case scan_number s of Some r \<Rightarrow> Some r | None \<Rightarrow> scan_constant s))"
| "scan_array 0 s = None"
| "scan_array (Suc n) s =
     (case scan_once n s of
        None \<Rightarrow> None
      | Some (v, r) \<Rightarrow>
          (case expect CHR '']'' (skip_ws r) of
             Some r' \<Rightarrow> Some ([v], r')
           | None \<Rightarrow>
               (case expect CHR '','' (skip_ws r) of
                  None \<Rightarrow> None
                | Some r' \<Rightarrow> map_option (apfst ((#) v)) (scan_array n (skip_ws r')))))"
| "scan_object 0 s = None"
| "scan_object (Suc n) s =
     (case expect CHR 0x22 s of
        None \<Rightarrow> None
      | Some r \<Rightarrow>
     (case scan_chars (length r) r of
        None \<Rightarrow> None
      | Some (k, r1) \<Rightarrow>
     (case expect CHR '':'' (skip_ws r1) of
        None \<Rightarrow> None
      | Some r2 \<Rightarrow>
     (case scan_once n (skip_ws r2) of
        None \<Rightarrow> None
      | Some (v, r3) \<Rightarrow>
          (case expect CHR ''}'' (skip_ws r3) of
             Some r4 \<Rightarrow> Some ([(k, v)], r4)
           | None \<Rightarrow>
               (case expect CHR '','' (skip_ws r3) of
                  None \<Rightarrow> None
                | Some r4 \<Rightarrow> map_option (apfst ((#) (k, v))) (scan_object n (skip_ws r4))))))))"

definition json_loads :: "string \<Rightarrow> exn + json" where
  "json_loads s =
     (case scan_once (Suc (length s)) (skip_ws s) of
        None \<Rightarrow> Inl (JSONDecodeError ''Expecting value'')
      | Some (v, r) \<Rightarrow>
          if skip_ws r = [] then Inr v else Inl (JSONDecodeError ''Extra data''))"

section \<open>Scripted services and the texts of the scenarios\<close>

text \<open>
  A client that gives every request the same answer, and a worksheet that gives every
  append the same answer: the services of the closed examples.
\<close>

definition scripted_client :: "exn + string option \<Rightarrow> gemini_client" where
  "scripted_client answer image_data prompt = answer"

definition scripted_sheet :: "exn option \<Rightarrow> worksheet" where
  "scripted_sheet answer row = answer"

definition scripted_env :: "exn + string option \<Rightarrow> exn option \<Rightarrow> env" where
  "scripted_env model_answer append_answer =
     \<lparr>GeminiClient = Some (scripted_client model_answer),
      sheet = Some (scripted_sheet append_answer)\<rparr>"


definition fenced_text :: string where
  \<open>fenced_text = ''```json {"Amount":"250","Date":"2024-01-05","Platform":"UPI"} ```''\<close>

definition own_note_text :: string where
  \<open>own_note_text = ''Here you go: {"Amount":"10","Note":"from the model","Tip":"2"}''\<close>


definition jpeg_bytes :: bytes where
  "jpeg_bytes = [0xFF, 0xD8, 0xFF]"



definition receipt_request :: "string \<Rightarrow> request" where
  "receipt_request note =
     \<lparr>files = [''image'' \<mapsto> \<lparr>filename = ''receipt.jpg'', read = Inr jpeg_bytes\<rparr>],
      form = [''note'' \<mapsto> note]\<rparr>"

section \<open>Properties\<close>

subsection \<open>The span between the first opening and the last closing brace\<close>

lemma str_find_first: "c \<notin> set pre \<Longrightarrow> str_find (pre @ c # rest) c = int (length pre)"
  by (induction pre) (auto simp: Let_def)

lemma str_find_absent: "c \<notin> set s \<Longrightarrow> str_find s c = - 1"
  by (induction s) (auto simp: Let_def)

lemma str_rfind_absent: "c \<notin> set s \<Longrightarrow> str_rfind s c = - 1"
  by (induction s) (auto simp: Let_def)

lemma str_rfind_last: "c \<notin> set suf \<Longrightarrow> str_rfind (pre @ c # suf) c = int (length pre)"
  by (induction pre) (auto simp: Let_def str_rfind_absent)



lemma candidate_none:
  assumes "CHR ''{'' \<notin> set pre" and "CHR ''}'' \<notin> set suf"
  shows "json_candidate (pre @ suf) = None"
proof (cases "CHR ''{'' \<in> set suf")
  case False
  then have "str_find (pre @ suf) CHR ''{'' = - 1"
    using assms(1) by (simp add: str_find_absent)
  then show ?thesis by (simp add: json_candidate_def)
next
  case True
  then obtain a b where suf: "suf = a @ CHR ''{'' # b" and a: "CHR ''{'' \<notin> set a"
    by (meson split_list_first)
  have "str_find ((pre @ a) @ CHR ''{'' # b) CHR ''{'' = int (length (pre @ a))"
    using assms(1) a by (intro str_find_first) simp
  then have f: "str_find (pre @ suf) CHR ''{'' = int (length pre) + int (length a)"
    by (simp add: suf)
  show ?thesis
  proof (cases "CHR ''}'' \<in> set pre")
    case False
    then have "str_rfind (pre @ suf) CHR ''}'' = - 1"
      using assms(2) by (simp add: str_rfind_absent)
    then show ?thesis by (simp add: json_candidate_def)
  next
    case True
    then obtain p q where pre: "pre = p @ CHR ''}'' # q" and q: "CHR ''}'' \<notin> set q"
      by (meson split_list_last)
    have "str_rfind (p @ CHR ''}'' # (q @ suf)) CHR ''}'' = int (length p)"
      using assms(2) q by (intro str_rfind_last) simp
    then have r: "str_rfind (pre @ suf) CHR ''}'' = int (length p)"
      by (simp add: pre)
    show ?thesis
      unfolding json_candidate_def f r by (simp add: pre)
  qed
qed



lemma strip_decomp:
  "\<exists>l r. s = l @ str_strip s @ r"
proof -
  let ?t = "dropWhile is_space s"
  have "s = takeWhile is_space s @ ?t" by simp
  moreover have "rev (takeWhile is_space (rev ?t) @ dropWhile is_space (rev ?t)) = rev (rev ?t)"
    by (simp only: takeWhile_dropWhile_id)
  then have "?t = str_strip s @ rev (takeWhile is_space (rev ?t))"
    by (simp only: rev_append rev_rev_ident str_strip_def)
  ultimately have "s = takeWhile is_space s @ str_strip s @ rev (takeWhile is_space (rev ?t))"
    by simp
  then show ?thesis by blast
qed

lemma infix_split:
  assumes "l @ m @ r = pre @ suf"
  shows "\<exists>pre' suf'. m = pre' @ suf' \<and> set pre' \<subseteq> set pre \<and> set suf' \<subseteq> set suf"
proof -
  have "m = take (length m) (drop (length l) (pre @ suf))"
    using assms [symmetric] by simp
  then have "m = take (length m) (drop (length l) pre)
               @ take (length m - length (drop (length l) pre)) (drop (length l - length pre) suf)"
    by (simp only: drop_append take_append)
  moreover have "set (take (length m) (drop (length l) pre)) \<subseteq> set pre"
    by (meson set_take_subset set_drop_subset subset_trans)
  moreover have "set (take (length m - length (drop (length l) pre)) (drop (length l - length pre) suf)) \<subseteq> set suf"
    by (meson set_take_subset set_drop_subset subset_trans)
  ultimately show ?thesis by blast
qed


lemma raw_candidate_none:
  assumes "CHR ''{'' \<notin> set pre" and "CHR ''}'' \<notin> set suf"
  shows "json_candidate (str_strip (pre @ suf)) = None"
proof -
  obtain l r where "pre @ suf = l @ str_strip (pre @ suf) @ r"
    using strip_decomp by blast
  then obtain pre' suf' where "str_strip (pre @ suf) = pre' @ suf'"
      and "set pre' \<subseteq> set pre" and "set suf' \<subseteq> set suf"
    using infix_split [of l "str_strip (pre @ suf)" r pre suf] by metis
  then show ?thesis
    using assms candidate_none [of pre' suf'] by auto
qed

subsection \<open>The paths through the pipeline\<close>

lemma setitem_Inr: "setitem v k x = Inr d \<Longrightarrow> \<exists>d0. v = JObject d0 \<and> d = dict_set k x d0"
  by (cases v) simp_all

lemma inner_handler_fails: "snd (inner_handler e text) = False"
  by (cases e) (simp_all add: parse_failed_def api_failed_def)



lemma decode_and_log_calls:
  assumes "decode_and_log loads sh json_str user_note text = (r, calls)" and "calls \<noteq> []"
  shows "\<exists>d. loads json_str = Inr (JObject d) \<and>
     calls = [AppendRow (ledger_row (dict_set ''Note'' (JString user_note) d) user_note text)]"
  using assms
  by (auto simp: decode_and_log_def Let_def split: sum.splits option.splits
      dest: setitem_Inr setitem_Inr [OF sym])

lemma decode_and_log_Inr:
  assumes "decode_and_log loads sh json_str user_note text = (Inr rec, calls)"
  shows "\<exists>d. loads json_str = Inr (JObject d) \<and> rec = dict_set ''Note'' (JString user_note) d \<and>
     sh (ledger_row rec user_note text) = None \<and>
     calls = [AppendRow (ledger_row rec user_note text)]"
  using assms
  by (auto simp: decode_and_log_def Let_def split: sum.splits option.splits
      dest: setitem_Inr setitem_Inr [OF sym])

lemma pipeline_text:
  assumes "GeminiClient ev = Some client" and "sheet ev = Some sh"
    and "client image_data fixed_prompt = Inr (Some text)"
  shows "process_and_log_transaction loads ev image_data user_note =
     (case json_candidate (str_strip text) of
        None \<Rightarrow> (no_json text, [generate_call image_data])
      | Some json_str \<Rightarrow>
          (case decode_and_log loads sh json_str user_note text of
             (Inl e, calls) \<Rightarrow> (inner_handler e text, generate_call image_data # calls)
           | (Inr structured_analysis, calls) \<Rightarrow>
               ((structured_analysis, True), generate_call image_data # calls)))"
  using assms by (simp add: process_and_log_transaction_def)


lemma pipeline_success:
  assumes "process_and_log_transaction loads ev image_data user_note = ((rec, True), calls)"
  shows "\<exists>client sh text json_str d.
     GeminiClient ev = Some client \<and> sheet ev = Some sh \<and>
     client image_data fixed_prompt = Inr (Some text) \<and>
     json_candidate (str_strip text) = Some json_str \<and>
     loads json_str = Inr (JObject d) \<and>
     rec = dict_set ''Note'' (JString user_note) d \<and>
     sh (ledger_row rec user_note text) = None \<and>
     calls = [generate_call image_data, AppendRow (ledger_row rec user_note text)]"
proof -
  from assms obtain client where c: "GeminiClient ev = Some client"
    by (auto simp: process_and_log_transaction_def split: option.splits)
  from assms c obtain sh where s: "sheet ev = Some sh"
    by (auto simp: process_and_log_transaction_def split: option.splits)
  from assms c s obtain raw where t: "client image_data fixed_prompt = Inr (Some raw)"
    by (auto simp: process_and_log_transaction_def api_failed_def split: option.splits sum.splits)
  note p = assms [unfolded pipeline_text [OF c s t]]
  from p obtain json_str where j: "json_candidate (str_strip raw) = Some json_str"
    by (auto simp: no_json_def split: option.splits)
  obtain r cs where d: "decode_and_log loads sh json_str user_note raw = (r, cs)"
    by (cases "decode_and_log loads sh json_str user_note raw")
  from p j d have "r = Inr rec" and calls: "calls = generate_call image_data # cs"
    using inner_handler_fails [of _ raw]
    by (auto split: sum.splits simp: prod_eq_iff)
  with d have "decode_and_log loads sh json_str user_note raw = (Inr rec, cs)" by simp
  from decode_and_log_Inr [OF this] c s t j calls show ?thesis by auto
qed

lemma pipeline_append:
  assumes "AppendRow row \<in> set (snd (process_and_log_transaction loads ev image_data user_note))"
  shows "\<exists>client sh text json_str d.
     GeminiClient ev = Some client \<and> sheet ev = Some sh \<and>
     client image_data fixed_prompt = Inr (Some text) \<and>
     json_candidate (str_strip text) = Some json_str \<and>
     loads json_str = Inr (JObject d) \<and>
     row = ledger_row (dict_set ''Note'' (JString user_note) d) user_note text"
proof -
  from assms obtain client where c: "GeminiClient ev = Some client"
    by (auto simp: process_and_log_transaction_def split: option.splits)
  from assms c obtain sh where s: "sheet ev = Some sh"
    by (auto simp: process_and_log_transaction_def split: option.splits)
  from assms c s obtain raw where t: "client image_data fixed_prompt = Inr (Some raw)"
    by (auto simp: process_and_log_transaction_def generate_call_def split: option.splits sum.splits)
  note p = assms [unfolded pipeline_text [OF c s t]]
  from p obtain json_str where j: "json_candidate (str_strip raw) = Some json_str"
    by (auto simp: generate_call_def split: option.splits)
  obtain r cs where d: "decode_and_log loads sh json_str user_note raw = (r, cs)"
    by (cases "decode_and_log loads sh json_str user_note raw")
  from p j d have "AppendRow row \<in> set cs"
    by (auto split: sum.splits simp: generate_call_def)
  then have "cs \<noteq> []" by auto
  from decode_and_log_calls [OF d this] \<open>AppendRow row \<in> set cs\<close> c s t j show ?thesis by auto
qed


subsection \<open>Preconditions\<close>

text \<open>
  Claim C7. When the extraction client or the worksheet handle is \<open>None\<close> at the call, the
  pipeline returns the payload of the missing handle with success \<open>False\<close>, and the list of
  external calls it attempted is empty: no extraction request, no append.
\<close>

theorem unconfigured_fails_before_any_call:
  "(GeminiClient ev = None \<longrightarrow>
      process_and_log_transaction loads ev image_data user_note =
        (([(''error'', JString ''Gemini client not initialized'')], False), [])) \<and>
   (GeminiClient ev \<noteq> None \<and> sheet ev = None \<longrightarrow>
      process_and_log_transaction loads ev image_data user_note =
        (([(''error'', JString ''Google Sheets client not initialized'')], False), []))"
  by (auto simp: process_and_log_transaction_def)

theorem unconfigured_fails_before_any_call_witness:
  "process_and_log_transaction json_loads
     \<lparr>GeminiClient = None, sheet = Some (scripted_sheet None)\<rparr> jpeg_bytes ''lunch'' =
     (([(''error'', JString ''Gemini client not initialized'')], False), []) \<and>
   process_and_log_transaction json_loads
     \<lparr>GeminiClient = Some (scripted_client (Inr (Some fenced_text))), sheet = None\<rparr>
     jpeg_bytes ''lunch'' =
     (([(''error'', JString ''Google Sheets client not initialized'')], False), [])"
  using unconfigured_fails_before_any_call
      [of "\<lparr>GeminiClient = None, sheet = Some (scripted_sheet None)\<rparr>"
          json_loads jpeg_bytes "''lunch''"]
    unconfigured_fails_before_any_call
      [of "\<lparr>GeminiClient = Some (scripted_client (Inr (Some fenced_text))), sheet = None\<rparr>"
          json_loads jpeg_bytes "''lunch''"]
  by simp

subsection \<open>No JSON found\<close>

lemma no_pair_split:
  assumes "CHR ''{'' \<notin> set s \<or> CHR ''}'' \<notin> set s \<or>
         (\<exists>pre suf. s = pre @ suf \<and> CHR ''{'' \<notin> set pre \<and> CHR ''}'' \<notin> set suf)"
  shows "\<exists>pre suf. s = pre @ suf \<and> CHR ''{'' \<notin> set pre \<and> CHR ''}'' \<notin> set suf"
proof -
  consider (a) "CHR ''{'' \<notin> set s" | (b) "CHR ''}'' \<notin> set s"
    | (c) "\<exists>pre suf. s = pre @ suf \<and> CHR ''{'' \<notin> set pre \<and> CHR ''}'' \<notin> set suf"
    using assms by argo
  then show ?thesis
  proof cases
    case a
    show ?thesis
      by (rule exI [of _ s], rule exI [of _ "[]"]) (simp add: a)
  next
    case b
    show ?thesis
      by (rule exI [of _ "[]"], rule exI [of _ s]) (simp add: b)
  next
    case c
    then show ?thesis .
  qed
qed

text \<open>
  Claim C5. With both handles present and a response text that has no opening brace, or no
  closing brace, or whose closing braces all come before its opening braces (the text is a
  part without \<open>{\<close> followed by a part without \<open>}\<close>), the pipeline returns the payload
  \<open>Could not find JSON in Gemini response\<close> with the raw text and success \<open>False\<close>, after
  the one extraction request. The pipeline is a total function into payloads, so there is
  no uncaught fault.
\<close>

theorem no_braces_no_json_found:
  assumes "GeminiClient ev = Some client" and "sheet ev = Some sh"
    and "client image_data fixed_prompt = Inr (Some text)"
    and "CHR ''{'' \<notin> set text \<or> CHR ''}'' \<notin> set text \<or>
         (\<exists>pre suf. text = pre @ suf \<and> CHR ''{'' \<notin> set pre \<and> CHR ''}'' \<notin> set suf)"
  shows "process_and_log_transaction loads ev image_data user_note =
     (([(''error'', JString ''Could not find JSON in Gemini response''),
        (''raw_response'', JString text)], False),
      [generate_call image_data])"
proof -
  from no_pair_split [OF assms(4)] obtain pre suf
    where t: "text = pre @ suf" and p: "CHR ''{'' \<notin> set pre" and s: "CHR ''}'' \<notin> set suf"
    by (elim exE conjE)
  have "json_candidate (str_strip (pre @ suf)) = None"
    using p s by (rule raw_candidate_none)
  then have "json_candidate (str_strip text) = None"
    by (simp only: t)
  then show ?thesis
    by (simp add: pipeline_text [OF assms(1-3)] no_json_def)
qed


theorem no_braces_no_json_found_witness:
  "process_and_log_transaction json_loads
     (scripted_env (Inr (Some ''I could not read the receipt.'')) None) jpeg_bytes ''lunch'' =
     (([(''error'', JString ''Could not find JSON in Gemini response''),
        (''raw_response'', JString ''I could not read the receipt.'')], False),
      [generate_call jpeg_bytes]) \<and>
   process_and_log_transaction json_loads
     (scripted_env (Inr (Some ''total} is {unknown'')) None) jpeg_bytes ''lunch'' =
     (([(''error'', JString ''Could not find JSON in Gemini response''),
        (''raw_response'', JString ''total} is {unknown'')], False),
      [generate_call jpeg_bytes])"
proof -
  let ?prose = "''I could not read the receipt.''"
  let ?swapped = "''total} is {unknown''"
  have env: "GeminiClient (scripted_env (Inr (Some t)) None) = Some (scripted_client (Inr (Some t)))"
    "sheet (scripted_env (Inr (Some t)) None) = Some (scripted_sheet None)"
    "scripted_client (Inr (Some t)) jpeg_bytes fixed_prompt = Inr (Some t)" for t
    by (simp_all add: scripted_env_def scripted_client_def)
  have 1: "CHR ''{'' \<notin> set ?prose \<or> CHR ''}'' \<notin> set ?prose \<or>
      (\<exists>pre suf. ?prose = pre @ suf \<and> CHR ''{'' \<notin> set pre \<and> CHR ''}'' \<notin> set suf)"
    by simp
  have "?swapped = ''total} is '' @ ''{unknown'' \<and> CHR ''{'' \<notin> set ''total} is ''
      \<and> CHR ''}'' \<notin> set ''{unknown''"
    by simp
  then have 2: "CHR ''{'' \<notin> set ?swapped \<or> CHR ''}'' \<notin> set ?swapped \<or>
      (\<exists>pre suf. ?swapped = pre @ suf \<and> CHR ''{'' \<notin> set pre \<and> CHR ''}'' \<notin> set suf)"
    by blast
  show ?thesis
    using no_braces_no_json_found [OF env 1, of json_loads "''lunch''"]
      no_braces_no_json_found [OF env 2, of json_loads "''lunch''"]
    by (rule conjI)
qed

subsection \<open>The scenarios, evaluated\<close>





lemma own_note_candidate:
  \<open>json_candidate (str_strip own_note_text) =
     Some ''{"Amount":"10","Note":"from the model","Tip":"2"}''\<close>
  by code_simp

lemma own_note_decoded:
  \<open>json_loads ''{"Amount":"10","Note":"from the model","Tip":"2"}'' =
     Inr (JObject [(''Amount'', JString ''10''), (''Note'', JString ''from the model''),
                   (''Tip'', JString ''2'')])\<close>
  by code_simp


lemma fenced_run:
  "process_and_log_transaction json_loads (scripted_env (Inr (Some fenced_text)) None)
     jpeg_bytes ''lunch'' =
   (([(''Amount'', JString ''250''), (''Date'', JString ''2024-01-05''),
      (''Platform'', JString ''UPI''), (''Note'', JString ''lunch'')], True),
    [generate_call jpeg_bytes,
     AppendRow [JString ''250'', JString ''2024-01-05'', JString ''UPI'', JString '''',
                JString '''', JString ''lunch'', JString fenced_text]])"
  by code_simp





subsection \<open>Failures and the ledger\<close>

lemma map_of_dict_set: "map_of (dict_set k v d) k' = (if k' = k then Some v else map_of d k')"
  by (simp add: dict_set_def update_conv')

lemma dict_get_dict_set: "k' \<noteq> k \<Longrightarrow> dict_get (dict_set k v d) k' dflt = dict_get d k' dflt"
  by (simp add: dict_get_def map_of_dict_set)

lemma ledger_row_note:
  "ledger_row (dict_set ''Note'' v d) user_note text =
     [dict_get d ''Amount'' (JString ''''), dict_get d ''Date'' (JString ''''),
      dict_get d ''Platform'' (JString ''''), dict_get d ''Items'' (JString ''''),
      dict_get d ''Vendor'' (JString ''''), JString user_note, JString text]"
  by (simp add: ledger_row_def dict_get_dict_set)


lemma prose_run:
  "process_and_log_transaction json_loads
     (scripted_env (Inr (Some ''I could not read the receipt.'')) None) jpeg_bytes ''lunch'' =
   (([(''error'', JString ''Could not find JSON in Gemini response''),
      (''raw_response'', JString ''I could not read the receipt.'')], False),
    [generate_call jpeg_bytes])"
  by code_simp

lemma own_note_run:
  "process_and_log_transaction json_loads (scripted_env (Inr (Some own_note_text)) None)
     jpeg_bytes '''' =
   (([(''Amount'', JString ''10''), (''Note'', JString ''''), (''Tip'', JString ''2'')], True),
    [generate_call jpeg_bytes,
     AppendRow [JString ''10'', JString '''', JString '''', JString '''', JString '''',
                JString '''', JString own_note_text]])"
  by code_simp

subsection \<open>The note\<close>

text \<open>
  Claim C6. In every successful run the returned record has the key \<open>Note\<close>, and its value
  is the note of the caller, whatever \<open>Note\<close> the decoded object had and also when the
  caller's note is the empty string.
\<close>

theorem note_is_the_callers:
  assumes "process_and_log_transaction loads ev image_data user_note = ((rec, True), calls)"
  shows "map_of rec ''Note'' = Some (JString user_note)"
proof -
  from pipeline_success [OF assms] obtain d where "rec = dict_set ''Note'' (JString user_note) d"
    by blast
  then show ?thesis by (simp add: map_of_dict_set)
qed

theorem note_is_the_callers_witness:
  "map_of [(''Amount'', JString ''10''), (''Note'', JString ''''), (''Tip'', JString ''2'')] ''Note''
     = Some (JString '''')"
  using note_is_the_callers [OF own_note_run] .

subsection \<open>The returned record and the upload endpoint\<close>

lemma api_success:
  assumes "files req ''image'' = Some image_file" and "form req ''note'' = Some user_note"
    and "filename image_file \<noteq> []" and "read image_file = Inr image_bytes"
    and "process_and_log_transaction loads ev image_bytes user_note = ((processed_data, True), calls)"
  shows "api_process_transaction loads ev req =
     ((JObject [(''message'', JString ''Transaction processed successfully''),
                (''data'', JObject processed_data)], 200), calls)"
  using assms by (simp add: api_process_transaction_def)

lemma api_failure:
  assumes "files req ''image'' = Some image_file" and "form req ''note'' = Some user_note"
    and "filename image_file \<noteq> []" and "read image_file = Inr image_bytes"
    and "process_and_log_transaction loads ev image_bytes user_note = ((processed_data, False), calls)"
  shows "api_process_transaction loads ev req =
     ((JObject [(''error'', JString ''Failed to process transaction''),
                (''details'', JObject processed_data)], 500), calls)"
  using assms by (simp add: api_process_transaction_def)

lemma api_bad_request:
  assumes "files req ''image'' = None \<or> form req ''note'' = None \<or>
      (\<exists>image_file. files req ''image'' = Some image_file \<and> filename image_file = [])"
  shows "\<exists>msg. api_process_transaction loads ev req = ((JObject [(''error'', JString msg)], 400), [])"
  using assms by (auto simp: api_process_transaction_def split: option.splits)

lemma receipt_request_simps:
  "files (receipt_request note) ''image'' = Some \<lparr>filename = ''receipt.jpg'', read = Inr jpeg_bytes\<rparr>"
  "form (receipt_request note) ''note'' = Some note"
  by (simp_all add: receipt_request_def)

text \<open>
  Claim C10. In a successful run the returned record is the dict the decoder returned for
  the candidate, with the key \<open>Note\<close> set to the caller's note: every other key, canonical
  or not, is in the record exactly when it is in the decoded dict and with the same value
  (no default is filled in); and the upload endpoint, given a well-formed request with
  that image and note, answers 200 with this record as \<open>data\<close>.
\<close>

theorem returned_record_is_decoded_object_with_note:
  assumes "process_and_log_transaction loads ev image_data user_note = ((rec, True), calls)"
  shows "(\<exists>client text json_str d.
       GeminiClient ev = Some client \<and>
       client image_data fixed_prompt = Inr (Some text) \<and>
       json_candidate (str_strip text) = Some json_str \<and>
       loads json_str = Inr (JObject d) \<and>
       rec = dict_set ''Note'' (JString user_note) d \<and>
       (\<forall>k. k \<noteq> ''Note'' \<longrightarrow> map_of rec k = map_of d k)) \<and>
     (\<forall>req image_file.
        files req ''image'' = Some image_file \<and> form req ''note'' = Some user_note \<and>
        filename image_file \<noteq> [] \<and> read image_file = Inr image_data \<longrightarrow>
        api_process_transaction loads ev req =
          ((JObject [(''message'', JString ''Transaction processed successfully''),
                     (''data'', JObject rec)], 200), calls))"
proof (intro conjI allI impI)
  from pipeline_success [OF assms] obtain client raw json_str d where
    "GeminiClient ev = Some client" "client image_data fixed_prompt = Inr (Some raw)"
    "json_candidate (str_strip raw) = Some json_str" "loads json_str = Inr (JObject d)"
    "rec = dict_set ''Note'' (JString user_note) d"
    by blast
  moreover from this(5) have "\<forall>k. k \<noteq> ''Note'' \<longrightarrow> map_of rec k = map_of d k"
    by (simp add: map_of_dict_set)
  ultimately show "\<exists>client text json_str d.
       GeminiClient ev = Some client \<and>
       client image_data fixed_prompt = Inr (Some text) \<and>
       json_candidate (str_strip text) = Some json_str \<and>
       loads json_str = Inr (JObject d) \<and>
       rec = dict_set ''Note'' (JString user_note) d \<and>
       (\<forall>k. k \<noteq> ''Note'' \<longrightarrow> map_of rec k = map_of d k)"
    by blast
next
  fix req :: request and image_file :: upload
  assume "files req ''image'' = Some image_file \<and> form req ''note'' = Some user_note \<and>
        filename image_file \<noteq> [] \<and> read image_file = Inr image_data"
  then show "api_process_transaction loads ev req =
          ((JObject [(''message'', JString ''Transaction processed successfully''),
                     (''data'', JObject rec)], 200), calls)"
    using api_success [of req image_file user_note image_data loads ev rec calls] assms by blast
qed

theorem returned_record_is_decoded_object_with_note_witness:
  "(\<exists>client text json_str d.
       GeminiClient (scripted_env (Inr (Some own_note_text)) None) = Some client \<and>
       client jpeg_bytes fixed_prompt = Inr (Some text) \<and>
       json_candidate (str_strip text) = Some json_str \<and>
       json_loads json_str = Inr (JObject d) \<and>
       [(''Amount'', JString ''10''), (''Note'', JString ''''), (''Tip'', JString ''2'')]
         = dict_set ''Note'' (JString '''') d \<and>
       (\<forall>k. k \<noteq> ''Note'' \<longrightarrow>
          map_of [(''Amount'', JString ''10''), (''Note'', JString ''''), (''Tip'', JString ''2'')] k
            = map_of d k)) \<and>
   api_process_transaction json_loads (scripted_env (Inr (Some own_note_text)) None)
       (receipt_request '''') =
     ((JObject [(''message'', JString ''Transaction processed successfully''),
                (''data'', JObject [(''Amount'', JString ''10''), (''Note'', JString ''''),
                                    (''Tip'', JString ''2'')])], 200),
      [generate_call jpeg_bytes,
       AppendRow [JString ''10'', JString '''', JString '''', JString '''', JString '''',
                  JString '''', JString own_note_text]]) \<and>
   map_of [(''Amount'', JString ''10''), (''Note'', JString ''''), (''Tip'', JString ''2'')] ''Tip''
     = Some (JString ''2'') \<and>
   map_of [(''Amount'', JString ''10''), (''Note'', JString ''''), (''Tip'', JString ''2'')] ''Date''
     = None"
proof -
  note inst = returned_record_is_decoded_object_with_note [OF own_note_run]
  from inst have "\<forall>req image_file.
        files req ''image'' = Some image_file \<and> form req ''note'' = Some '''' \<and>
        filename image_file \<noteq> [] \<and> read image_file = Inr jpeg_bytes \<longrightarrow>
        api_process_transaction json_loads (scripted_env (Inr (Some own_note_text)) None) req =
          ((JObject [(''message'', JString ''Transaction processed successfully''),
                (''data'', JObject [(''Amount'', JString ''10''), (''Note'', JString ''''),
                                    (''Tip'', JString ''2'')])], 200),
      [generate_call jpeg_bytes,
       AppendRow [JString ''10'', JString '''', JString '''', JString '''', JString '''',
                  JString '''', JString own_note_text]])"
    by (rule conjunct2)
  then have "api_process_transaction json_loads (scripted_env (Inr (Some own_note_text)) None)
       (receipt_request '''') =
     ((JObject [(''message'', JString ''Transaction processed successfully''),
                (''data'', JObject [(''Amount'', JString ''10''), (''Note'', JString ''''),
                                    (''Tip'', JString ''2'')])], 200),
      [generate_call jpeg_bytes,
       AppendRow [JString ''10'', JString '''', JString '''', JString '''', JString '''',
                  JString '''', JString own_note_text]])"
    using receipt_request_simps [of "''''"] by simp
  moreover have
    "map_of [(''Amount'', JString ''10''), (''Note'', JString ''''), (''Tip'', JString ''2'')] ''Tip''
       = Some (JString ''2'') \<and>
     map_of [(''Amount'', JString ''10''), (''Note'', JString ''''), (''Tip'', JString ''2'')] ''Date''
       = None"
    by simp
  moreover note conjunct1 [OF inst]
  ultimately show ?thesis by blast
qed

subsection \<open>The appended row\<close>

text \<open>
  Claim C8. Every row handed to the worksheet has exactly seven values, in the order
  Amount, Date, Platform, Items, Vendor (each the decoded dict's value for that key, or the
  empty string), the caller's note, and the response text as the client returned it
  (before stripping). For the fenced response of the first scenario and the note
  \<open>lunch\<close> the run succeeds and the row is 250, 2024-01-05, UPI, two empty strings,
  lunch and the raw text.
\<close>

theorem appended_row_has_seven_columns:
  "(AppendRow row \<in> set (snd (process_and_log_transaction loads ev image_data user_note)) \<longrightarrow>
      (\<exists>client text json_str d.
         GeminiClient ev = Some client \<and>
         client image_data fixed_prompt = Inr (Some text) \<and>
         json_candidate (str_strip text) = Some json_str \<and>
         loads json_str = Inr (JObject d) \<and>
         length row = 7 \<and>
         row = [dict_get d ''Amount'' (JString ''''), dict_get d ''Date'' (JString ''''),
                dict_get d ''Platform'' (JString ''''), dict_get d ''Items'' (JString ''''),
                dict_get d ''Vendor'' (JString ''''), JString user_note, JString text])) \<and>
   process_and_log_transaction json_loads (scripted_env (Inr (Some fenced_text)) None)
     jpeg_bytes ''lunch'' =
   (([(''Amount'', JString ''250''), (''Date'', JString ''2024-01-05''),
      (''Platform'', JString ''UPI''), (''Note'', JString ''lunch'')], True),
    [generate_call jpeg_bytes,
     AppendRow [JString ''250'', JString ''2024-01-05'', JString ''UPI'', JString '''',
                JString '''', JString ''lunch'', JString fenced_text]])"
proof (intro conjI impI)
  assume "AppendRow row \<in> set (snd (process_and_log_transaction loads ev image_data user_note))"
  from pipeline_append [OF this] obtain client raw json_str d where
    "GeminiClient ev = Some client" "client image_data fixed_prompt = Inr (Some raw)"
    "json_candidate (str_strip raw) = Some json_str" "loads json_str = Inr (JObject d)"
    "row = ledger_row (dict_set ''Note'' (JString user_note) d) user_note raw"
    by blast
  moreover from this(5) have
    "row = [dict_get d ''Amount'' (JString ''''), dict_get d ''Date'' (JString ''''),
            dict_get d ''Platform'' (JString ''''), dict_get d ''Items'' (JString ''''),
            dict_get d ''Vendor'' (JString ''''), JString user_note, JString raw]"
    by (simp only: ledger_row_note)
  moreover from this have "length row = 7" by simp
  ultimately show "\<exists>client text json_str d.
         GeminiClient ev = Some client \<and>
         client image_data fixed_prompt = Inr (Some text) \<and>
         json_candidate (str_strip text) = Some json_str \<and>
         loads json_str = Inr (JObject d) \<and>
         length row = 7 \<and>
         row = [dict_get d ''Amount'' (JString ''''), dict_get d ''Date'' (JString ''''),
                dict_get d ''Platform'' (JString ''''), dict_get d ''Items'' (JString ''''),
                dict_get d ''Vendor'' (JString ''''), JString user_note, JString text]"
    by blast
next
  show "process_and_log_transaction json_loads (scripted_env (Inr (Some fenced_text)) None)
     jpeg_bytes ''lunch'' =
   (([(''Amount'', JString ''250''), (''Date'', JString ''2024-01-05''),
      (''Platform'', JString ''UPI''), (''Note'', JString ''lunch'')], True),
    [generate_call jpeg_bytes,
     AppendRow [JString ''250'', JString ''2024-01-05'', JString ''UPI'', JString '''',
                JString '''', JString ''lunch'', JString fenced_text]])"
    by (rule fenced_run)
qed

theorem appended_row_has_seven_columns_witness:
  "\<exists>client text json_str d.
     GeminiClient (scripted_env (Inr (Some own_note_text)) None) = Some client \<and>
     client jpeg_bytes fixed_prompt = Inr (Some text) \<and>
     json_candidate (str_strip text) = Some json_str \<and>
     json_loads json_str = Inr (JObject d) \<and>
     length [JString ''10'', JString '''', JString '''', JString '''', JString '''',
             JString '''', JString own_note_text] = 7 \<and>
     [JString ''10'', JString '''', JString '''', JString '''', JString '''',
      JString '''', JString own_note_text] =
     [dict_get d ''Amount'' (JString ''''), dict_get d ''Date'' (JString ''''),
      dict_get d ''Platform'' (JString ''''), dict_get d ''Items'' (JString ''''),
      dict_get d ''Vendor'' (JString ''''), JString '''', JString text]"
proof -
  have "AppendRow [JString ''10'', JString '''', JString '''', JString '''', JString '''',
             JString '''', JString own_note_text]
      \<in> set (snd (process_and_log_transaction json_loads
                 (scripted_env (Inr (Some own_note_text)) None) jpeg_bytes ''''))"
    by (simp add: own_note_run)
  with appended_row_has_seven_columns
    [of "[JString ''10'', JString '''', JString '''', JString '''', JString '''',
             JString '''', JString own_note_text]" json_loads
        "scripted_env (Inr (Some own_note_text)) None" jpeg_bytes "''''"]
  show ?thesis by blast
qed




subsection \<open>A failing append\<close>




subsection \<open>The statuses of the upload endpoint\<close>

text \<open>
  Claim C9. The endpoint answers 400 with a body \<open>{"error": ...}\<close>, before any external
  call, when the request has no \<open>image\<close> file, no \<open>note\<close> field, or an image with an empty
  file name. For a well-formed request whose image can be read it runs the pipeline and
  answers 200 with the body \<open>{"message": ..., "data": record}\<close> when the pipeline reports
  success, and 500 with the body \<open>{"error": ..., "details": payload}\<close> when it reports
  failure.
\<close>

theorem upload_endpoint_statuses:
  "(files req ''image'' = None \<or> form req ''note'' = None \<or>
      (\<exists>image_file. files req ''image'' = Some image_file \<and> filename image_file = []) \<longrightarrow>
      (\<exists>msg. api_process_transaction loads ev req =
         ((JObject [(''error'', JString msg)], 400), []))) \<and>
   (files req ''image'' = Some image_file \<and> form req ''note'' = Some user_note \<and>
    filename image_file \<noteq> [] \<and> read image_file = Inr image_bytes \<longrightarrow>
      (process_and_log_transaction loads ev image_bytes user_note = ((processed_data, True), calls) \<longrightarrow>
         api_process_transaction loads ev req =
           ((JObject [(''message'', JString ''Transaction processed successfully''),
                      (''data'', JObject processed_data)], 200), calls)) \<and>
      (process_and_log_transaction loads ev image_bytes user_note = ((processed_data, False), calls) \<longrightarrow>
         api_process_transaction loads ev req =
           ((JObject [(''error'', JString ''Failed to process transaction''),
                      (''details'', JObject processed_data)], 500), calls)))"
proof (intro conjI impI)
  assume "files req ''image'' = None \<or> form req ''note'' = None \<or>
      (\<exists>image_file. files req ''image'' = Some image_file \<and> filename image_file = [])"
  then show "\<exists>msg. api_process_transaction loads ev req =
         ((JObject [(''error'', JString msg)], 400), [])"
    by (rule api_bad_request)
next
  assume "files req ''image'' = Some image_file \<and> form req ''note'' = Some user_note \<and>
    filename image_file \<noteq> [] \<and> read image_file = Inr image_bytes"
    and "process_and_log_transaction loads ev image_bytes user_note = ((processed_data, True), calls)"
  then show "api_process_transaction loads ev req =
           ((JObject [(''message'', JString ''Transaction processed successfully''),
                      (''data'', JObject processed_data)], 200), calls)"
    by (simp add: api_success)
next
  assume "files req ''image'' = Some image_file \<and> form req ''note'' = Some user_note \<and>
    filename image_file \<noteq> [] \<and> read image_file = Inr image_bytes"
    and "process_and_log_transaction loads ev image_bytes user_note = ((processed_data, False), calls)"
  then show "api_process_transaction loads ev req =
           ((JObject [(''error'', JString ''Failed to process transaction''),
                      (''details'', JObject processed_data)], 500), calls)"
    by (simp add: api_failure)
qed

theorem upload_endpoint_statuses_witness:
  "(\<exists>msg. api_process_transaction json_loads (scripted_env (Inr (Some fenced_text)) None)
       \<lparr>files = Map.empty, form = [''note'' \<mapsto> ''lunch'']\<rparr> =
       ((JObject [(''error'', JString msg)], 400), [])) \<and>
   api_process_transaction json_loads (scripted_env (Inr (Some fenced_text)) None)
       (receipt_request ''lunch'') =
     ((JObject [(''message'', JString ''Transaction processed successfully''),
                (''data'', JObject [(''Amount'', JString ''250''), (''Date'', JString ''2024-01-05''),
                                    (''Platform'', JString ''UPI''), (''Note'', JString ''lunch'')])],
       200),
      [generate_call jpeg_bytes,
       AppendRow [JString ''250'', JString ''2024-01-05'', JString ''UPI'', JString '''',
                  JString '''', JString ''lunch'', JString fenced_text]]) \<and>
   api_process_transaction json_loads
       (scripted_env (Inr (Some ''I could not read the receipt.'')) None)
       (receipt_request ''lunch'') =
     ((JObject [(''error'', JString ''Failed to process transaction''),
                (''details'',
                 JObject [(''error'', JString ''Could not find JSON in Gemini response''),
                          (''raw_response'', JString ''I could not read the receipt.'')])],
       500),
      [generate_call jpeg_bytes])"
proof -
  let ?file = "\<lparr>filename = ''receipt.jpg'', read = Inr jpeg_bytes\<rparr>"
  have shape: "files (receipt_request ''lunch'') ''image'' = Some ?file \<and>
      form (receipt_request ''lunch'') ''note'' = Some ''lunch'' \<and>
      filename ?file \<noteq> [] \<and> read ?file = Inr jpeg_bytes"
    by (simp add: receipt_request_def)
  have missing: "files \<lparr>files = Map.empty, form = [''note'' \<mapsto> ''lunch'']\<rparr> ''image'' = None"
    by simp
  from upload_endpoint_statuses
      [of "\<lparr>files = Map.empty, form = [''note'' \<mapsto> ''lunch'']\<rparr>" json_loads
          "scripted_env (Inr (Some fenced_text)) None"] missing
  have 1: "\<exists>msg. api_process_transaction json_loads (scripted_env (Inr (Some fenced_text)) None)
       \<lparr>files = Map.empty, form = [''note'' \<mapsto> ''lunch'']\<rparr> =
       ((JObject [(''error'', JString msg)], 400), [])"
    by blast
  from upload_endpoint_statuses
      [of "receipt_request ''lunch''" json_loads "scripted_env (Inr (Some fenced_text)) None"
          ?file "''lunch''" jpeg_bytes] shape fenced_run
  have 2: "api_process_transaction json_loads (scripted_env (Inr (Some fenced_text)) None)
       (receipt_request ''lunch'') =
     ((JObject [(''message'', JString ''Transaction processed successfully''),
                (''data'', JObject [(''Amount'', JString ''250''), (''Date'', JString ''2024-01-05''),
                                    (''Platform'', JString ''UPI''), (''Note'', JString ''lunch'')])],
       200),
      [generate_call jpeg_bytes,
       AppendRow [JString ''250'', JString ''2024-01-05'', JString ''UPI'', JString '''',
                  JString '''', JString ''lunch'', JString fenced_text]])"
    by blast
  from upload_endpoint_statuses
      [of "receipt_request ''lunch''" json_loads
          "scripted_env (Inr (Some ''I could not read the receipt.'')) None"
          ?file "''lunch''" jpeg_bytes] shape prose_run
  have 3: "api_process_transaction json_loads
       (scripted_env (Inr (Some ''I could not read the receipt.'')) None)
       (receipt_request ''lunch'') =
     ((JObject [(''error'', JString ''Failed to process transaction''),
                (''details'',
                 JObject [(''error'', JString ''Could not find JSON in Gemini response''),
                          (''raw_response'', JString ''I could not read the receipt.'')])],
       500),
      [generate_call jpeg_bytes])"
    by blast
  from 1 2 3 show ?thesis by (intro conjI)
qed

subsection \<open>Every way a run can end\<close>


















subsection \<open>The candidate and its decoding\<close>



subsection \<open>Failures end the run\<close>



end
